theory Spec2Isabelle
  imports Complex_Main
begin

section \<open>The ChatDT Performance Score engine (analyst.py)\<close>

text \<open>
  A shallow embedding of class \<open>AnalystAgent\<close> of \<open>src/analyst.py\<close>: the value cleaner,
  the statistics parser, the score formula, the comparison made inside \<open>analyze_match\<close>
  and the verdict generator.

  Conventions of the embedding.
  \<^item> A Python \<open>float\<close> is an exact real number. Rounding of the binary format, infinities
    and NaN are outside the model. The one place where the finite range of a double changes
    the control flow, the \<open>OverflowError\<close> of \<open>float(n)\<close> on a large \<open>int\<close>, is a branch
    of the model.
  \<^item> A Python \<open>str\<close> is a \<open>string\<close> of ASCII characters.
  \<^item> An exception is a value of type \<open>error\<close>; a function that may raise returns
    \<open>error + 'a\<close>, with \<open>Inl\<close> for the exception.
  \<^item> \<open>print\<close> output that a claim speaks about (the warning of \<open>parse_statistics\<close>) is
    returned as a list of lines.
  \<^item> Builtins whose results are text or parsed text are parameters of the functions that
    call them: \<open>float\<close> on a string (\<open>None\<close> for \<open>ValueError\<close>), \<open>round(x, 2)\<close> and the
    format \<open>:.1f\<close>.
\<close>

subsection \<open>Exceptions and raw values\<close>

datatype error = TypeError | OverflowError | KeyError

text \<open>
  The raw value of a statistic as the decoded JSON has it: \<open>None\<close>, a string, an integer,
  a float, a boolean, or anything else (a list or a dictionary).
\<close>

datatype raw_value = VNone | VStr string | VInt int | VFloat real | VBool bool | VOther

text \<open>
  \<open>float(n)\<close> for an \<open>int\<close>: CPython rounds to the nearest double, ties to even, and
  raises \<open>OverflowError\<close> when the result is not finite, that is from
  \<open>2^1024 - 2^970\<close> on in magnitude.
\<close>

definition float_of_int :: "int \<Rightarrow> error + real" where
  "float_of_int n =
     (if 2 ^ 1024 - 2 ^ 970 \<le> \<bar>n\<bar> then Inl OverflowError else Inr (of_int n))"

subsection \<open>String builtins\<close>

text \<open>\<open>str.replace(old, new)\<close> for a one-character \<open>old\<close>.\<close>

definition replace :: "char \<Rightarrow> string \<Rightarrow> string \<Rightarrow> string" where
  "replace old new s = concat (map (\<lambda>c. if c = old then new else [c]) s)"

text \<open>\<open>str.lower()\<close> on ASCII: the letters A to Z move to a to z.\<close>

definition lower_char :: "char \<Rightarrow> char" where
  "lower_char c =
     (let n = (of_char c :: nat) in if 65 \<le> n \<and> n \<le> 90 then char_of (n + 32) else c)"

definition lower :: "string \<Rightarrow> string" where
  "lower s = map lower_char s"

text \<open>
  \<open>str.strip()\<close>: the ASCII characters for which \<open>str.isspace\<close> holds are tab, line
  feed, vertical tab, form feed, carriage return, the four separators 28 to 31 and space.
\<close>

definition isspace :: "char \<Rightarrow> bool" where
  "isspace c = (let n = (of_char c :: nat) in (9 \<le> n \<and> n \<le> 13) \<or> (28 \<le> n \<and> n \<le> 32))"

definition strip :: "string \<Rightarrow> string" where
  "strip s = rev (dropWhile isspace (rev (dropWhile isspace s)))"

subsection \<open>Cleaning one value\<close>

text \<open>
  \<open>_clean_stat_value\<close> (lines 156 to 175). The parameter \<open>float_str\<close> is \<open>float\<close> on a
  string; \<open>None\<close> is its \<open>ValueError\<close>, which the source catches.
\<close>

fun clean_stat_value :: "(string \<Rightarrow> real option) \<Rightarrow> raw_value \<Rightarrow> error + real" where
  "clean_stat_value float_str VNone = Inr 0"
| "clean_stat_value float_str (VStr s) =
     (let cleaned = strip (replace CHR ''%'' [] s)
      in case float_str cleaned of Some x \<Rightarrow> Inr x | None \<Rightarrow> Inr 0)"
| "clean_stat_value float_str (VInt n) = float_of_int n"
| "clean_stat_value float_str (VFloat x) = Inr x"
| "clean_stat_value float_str (VBool b) = Inr (if b then 1 else 0)"
| "clean_stat_value float_str VOther = Inl TypeError"

subsection \<open>The class attributes\<close>

text \<open>
  \<open>WEIGHTS\<close> (lines 59 to 76) is a dictionary held by the class, not by an instance: it is
  the initial value of the one table every instance reads. The state of the class is that
  table, a map from weight name to weight.
\<close>

type_synonym weights = "string \<rightharpoonup> real"

definition WEIGHTS :: "(string \<times> real) list" where
  "WEIGHTS =
     [(''shots_on_goal'', 3),
      (''shots_inside_box'', 2),
      (''shots_outside_box'', 1 / 2),
      (''corner_kicks'', 1),
      (''offsides'', - (3 / 10)),
      (''possession'', 4 / 10),
      (''pass_accuracy'', 1 / 2),
      (''total_passes'', 2 / 100),
      (''fouls'', - (1 / 2)),
      (''yellow_cards'', - 3),
      (''red_cards'', - 10)]"

text \<open>\<open>STAT_MAPPING\<close> (lines 79 to 96); the code never writes to it.\<close>

definition STAT_MAPPING :: "(string \<times> string) list" where
  "STAT_MAPPING =
     [(''Shots on Goal'', ''shots_on_goal''),
      (''Shots off Goal'', ''shots_off_goal''),
      (''Total Shots'', ''total_shots''),
      (''Blocked Shots'', ''blocked_shots''),
      (''Shots insidebox'', ''shots_inside_box''),
      (''Shots outsidebox'', ''shots_outside_box''),
      (''Fouls'', ''fouls''),
      (''Corner Kicks'', ''corner_kicks''),
      (''Offsides'', ''offsides''),
      (''Ball Possession'', ''possession''),
      (''Yellow Cards'', ''yellow_cards''),
      (''Red Cards'', ''red_cards''),
      (''Goalkeeper Saves'', ''goalkeeper_saves''),
      (''Total passes'', ''total_passes''),
      (''Passes accurate'', ''passes_accurate''),
      (''Passes %'', ''pass_accuracy'')]"

text \<open>
  \<open>__init__\<close> (lines 98 to 106). \<open>self.WEIGHTS\<close> is the dictionary of the class, since no
  instance ever gets an attribute of that name, and \<open>update\<close> changes it in place: the
  constructor takes the table of the class and returns it updated. The new instance
  itself holds nothing. \<open>if weights\<close> is false for \<open>None\<close> and for the empty dictionary.
\<close>

definition init :: "weights option \<Rightarrow> weights \<Rightarrow> weights" where
  "init weights W =
     (case weights of
        None \<Rightarrow> W
      | Some ov \<Rightarrow> if ov = Map.empty then W else W ++ ov)"

text \<open>The table of the class after a sequence of constructor calls, oldest first.\<close>

definition constructed :: "weights option list \<Rightarrow> weights" where
  "constructed calls = foldl (\<lambda>W weights. init weights W) (map_of WEIGHTS) calls"

subsection \<open>Statistics records and the score\<close>

text \<open>
  A statistics record is a dictionary from internal name to cleaned value; under the key
  \<open>team_name\<close> the parser stores the name of the team, a string.
\<close>

datatype cell = Num real | Text string

type_synonym stat_record = "string \<rightharpoonup> cell"

record CPSBreakdown =
  threat :: real
  control :: real
  friction :: real
  total :: real

text \<open>
  One product \<open>stats.get(k, 0) * self.WEIGHTS[k]\<close>: the lookup in the record has a
  default, the lookup in the weights raises \<open>KeyError\<close> on a missing key, and a string
  times a float raises \<open>TypeError\<close>.
\<close>

definition weighted :: "weights \<Rightarrow> stat_record \<Rightarrow> string \<Rightarrow> error + real" where
  "weighted W stats k =
     (let v = (case stats k of None \<Rightarrow> Num 0 | Some x \<Rightarrow> x)
      in case W k of
           None \<Rightarrow> Inl KeyError
         | Some w \<Rightarrow> (case v of Num x \<Rightarrow> Inr (x * w) | Text t \<Rightarrow> Inl TypeError))"

text \<open>\<open>a + b\<close> where either operand may have raised; the left one is evaluated first.\<close>

definition add :: "error + real \<Rightarrow> error + real \<Rightarrow> error + real" where
  "add a b =
     (case a of
        Inl e \<Rightarrow> Inl e
      | Inr x \<Rightarrow> (case b of Inl e \<Rightarrow> Inl e | Inr y \<Rightarrow> Inr (x + y)))"

text \<open>\<open>calculate_cps\<close> (lines 177 to 223), reading the table \<open>W\<close> of the class.\<close>

definition calculate_cps :: "weights \<Rightarrow> stat_record \<Rightarrow> error + CPSBreakdown" where
  "calculate_cps W stats =
     (case add (add (add (add (weighted W stats ''shots_on_goal'')
                                  (weighted W stats ''shots_inside_box''))
                            (weighted W stats ''shots_outside_box''))
                      (weighted W stats ''corner_kicks''))
                (weighted W stats ''offsides'') of
        Inl e \<Rightarrow> Inl e
      | Inr threat' \<Rightarrow>
     (case add (add (weighted W stats ''possession'')
                      (weighted W stats ''pass_accuracy''))
                (weighted W stats ''total_passes'') of
        Inl e \<Rightarrow> Inl e
      | Inr control' \<Rightarrow>
     (case add (add (weighted W stats ''fouls'')
                      (weighted W stats ''yellow_cards''))
                (weighted W stats ''red_cards'') of
        Inl e \<Rightarrow> Inl e
      | Inr friction' \<Rightarrow>
          Inr \<lparr>threat = threat', control = control', friction = friction',
               total = threat' + control' + friction'\<rparr>)))"

subsection \<open>Parsing the statistics of a match\<close>

text \<open>
  The payload as the decoded JSON has it. A field that a dictionary may lack is an option,
  \<open>None\<close> for the missing key: \<open>get\<close> then takes its default.
\<close>

record stat =
  stat_type :: "string option"
  stat_value :: "raw_value option"

record team_info =
  name :: "string option"

record team_stats =
  team :: "team_info option"
  statistics :: "stat list option"

record parsed =
  home :: stat_record
  away :: stat_record

text \<open>
  \<open>self.STAT_MAPPING.get(stat_type, stat_type.lower().replace(" ", "_"))\<close> (line 149).
\<close>

definition internal_name :: "string \<Rightarrow> string" where
  "internal_name stype =
     (case map_of STAT_MAPPING stype of
        Some n \<Rightarrow> n
      | None \<Rightarrow> replace CHR '' '' ''_'' (lower stype))"

text \<open>The inner loop (lines 141 to 150), writing into the record \<open>r\<close> of one team.\<close>

fun store_stats ::
  "(string \<Rightarrow> real option) \<Rightarrow> stat list \<Rightarrow> stat_record \<Rightarrow> error + stat_record" where
  "store_stats float_str [] r = Inr r"
| "store_stats float_str (s # ss) r =
     (let stype = (case stat_type s of None \<Rightarrow> [] | Some t \<Rightarrow> t);
          v = (case stat_value s of None \<Rightarrow> VNone | Some x \<Rightarrow> x)
      in case clean_stat_value float_str v of
           Inl e \<Rightarrow> Inl e
         | Inr clean_value \<Rightarrow>
             store_stats float_str ss (r(internal_name stype \<mapsto> Num clean_value)))"

text \<open>The body of the outer loop (lines 138 to 152) for one block.\<close>

definition store_team ::
  "(string \<Rightarrow> real option) \<Rightarrow> string \<Rightarrow> team_stats \<Rightarrow> stat_record \<Rightarrow> error + stat_record" where
  "store_team float_str key b r =
     (let team_name = (case team b of
                         None \<Rightarrow> key
                       | Some t \<Rightarrow> (case name t of None \<Rightarrow> key | Some n \<Rightarrow> n))
      in case store_stats float_str (case statistics b of None \<Rightarrow> [] | Some ss \<Rightarrow> ss) r of
           Inl e \<Rightarrow> Inl e
         | Inr r' \<Rightarrow> Inr (r'(''team_name'' \<mapsto> Text team_name)))"

text \<open>The outer loop over \<open>enumerate(stats_data)\<close>, from index \<open>i\<close> on.\<close>

fun parse_loop ::
  "(string \<Rightarrow> real option) \<Rightarrow> nat \<Rightarrow> team_stats list \<Rightarrow> parsed \<Rightarrow> error + parsed" where
  "parse_loop float_str i [] result = Inr result"
| "parse_loop float_str i (b # bs) result =
     (if i = 0
      then (case store_team float_str ''home'' b (home result) of
              Inl e \<Rightarrow> Inl e
            | Inr r \<Rightarrow> parse_loop float_str (Suc i) bs (result\<lparr>home := r\<rparr>))
      else (case store_team float_str ''away'' b (away result) of
              Inl e \<Rightarrow> Inl e
            | Inr r \<Rightarrow> parse_loop float_str (Suc i) bs (result\<lparr>away := r\<rparr>)))"

text \<open>
  \<open>parse_statistics\<close> (lines 118 to 154). The argument is \<open>None\<close> or a list; the result is
  the lines printed and the dictionary returned.
\<close>

definition parse_statistics ::
  "(string \<Rightarrow> real option) \<Rightarrow> team_stats list option \<Rightarrow> error + (string list \<times> parsed)" where
  "parse_statistics float_str stats_data =
     (let result = \<lparr>home = Map.empty, away = Map.empty\<rparr>
      in case stats_data of
           None \<Rightarrow> Inr ([''[ANALYST] WARN: Estadisticas incompletas''], result)
         | Some blocks \<Rightarrow>
             if blocks = [] \<or> length blocks < 2
             then Inr ([''[ANALYST] WARN: Estadisticas incompletas''], result)
             else (case parse_loop float_str 0 blocks result of
                     Inl e \<Rightarrow> Inl e
                   | Inr res \<Rightarrow> Inr ([], res)))"

subsection \<open>Comparison and verdict\<close>

record match_info =
  home_team :: string
  away_team :: string
  home_goals :: int
  away_goals :: int

record comparison =
  home_score :: real
  away_score :: real
  difference :: real
  better_team :: string
  dominance :: string

text \<open>
  The comparison inside \<open>analyze_match\<close> (lines 286 to 310). The parameter \<open>round2\<close> is
  \<open>round(x, 2)\<close>.
\<close>

definition compare ::
  "(real \<Rightarrow> real) \<Rightarrow> match_info \<Rightarrow> CPSBreakdown \<Rightarrow> CPSBreakdown \<Rightarrow> comparison" where
  "compare round2 mi home_cps away_cps =
     (let diff = total home_cps - total away_cps;
          (better, dom_label) =
            (if diff > 5 then (home_team mi, ''claramente'')
             else if diff > 2 then (home_team mi, ''ligeramente'')
             else if diff < - 5 then (away_team mi, ''claramente'')
             else if diff < - 2 then (away_team mi, ''ligeramente'')
             else (''Empate tecnico'', ''''))
      in \<lparr>home_score = round2 (total home_cps),
          away_score = round2 (total away_cps),
          difference = round2 \<bar>diff\<bar>,
          better_team = better,
          dominance = dom_label\<rparr>)"

text \<open>The five texts of \<open>_generate_verdict\<close>; \<open>fmt\<close> is the format \<open>:.1f\<close>.\<close>

definition text_deserved :: "(real \<Rightarrow> string) \<Rightarrow> string \<Rightarrow> real \<Rightarrow> real \<Rightarrow> string" where
  "text_deserved fmt winner winner_cps diff =
     winner @ '' gano y merecio el triunfo. '' @
     ''Su CPS de '' @ fmt winner_cps @ '' fue superior por '' @ fmt diff @ '' puntos.''"

definition text_close :: "(real \<Rightarrow> string) \<Rightarrow> string \<Rightarrow> real \<Rightarrow> string" where
  "text_close fmt winner diff =
     ''Partido parejo. '' @ winner @ '' se llevo los 3 puntos pero '' @
     ''el rendimiento fue muy similar (diferencia de solo '' @ fmt diff @ '' puntos).''"

definition text_unjust ::
  "(real \<Rightarrow> string) \<Rightarrow> string \<Rightarrow> real \<Rightarrow> real \<Rightarrow> string \<Rightarrow> string" where
  "text_unjust fmt better better_cps diff winner =
     ''Resultado injusto! '' @ better @ '' fue el mejor equipo con un CPS de '' @
     fmt better_cps @ '', '' @
     ''superior por '' @ fmt diff @ '' puntos, pero '' @ winner @ '' se llevo la victoria. '' @
     ''El futbol a veces no premia al mejor.''"

definition text_fair_draw :: string where
  "text_fair_draw = ''Empate justo. Ambos equipos rindieron de manera similar.''"

definition text_draw_undersells :: "(real \<Rightarrow> string) \<Rightarrow> string \<Rightarrow> real \<Rightarrow> string" where
  "text_draw_undersells fmt better diff =
     ''Empate con sabor a poco para '' @ better @ '', '' @
     ''que fue superior por '' @ fmt diff @ '' puntos de CPS.''"

text \<open>
  \<open>_generate_verdict\<close> (lines 349 to 411). \<open>winner\<close> is a team name or \<open>None\<close>; as a
  condition it is false for \<open>None\<close> and for the empty string.
\<close>

definition truthy :: "string option \<Rightarrow> bool" where
  "truthy w = (case w of None \<Rightarrow> False | Some s \<Rightarrow> s \<noteq> [])"

definition generate_verdict ::
  "(real \<Rightarrow> string) \<Rightarrow> match_info \<Rightarrow> comparison \<Rightarrow> CPSBreakdown \<Rightarrow> CPSBreakdown \<Rightarrow> string" where
  "generate_verdict fmt mi cmp home_cps away_cps =
     (let (winner, winner_cps) =
            (if home_goals mi > away_goals mi then (Some (home_team mi), total home_cps)
             else if away_goals mi > home_goals mi then (Some (away_team mi), total away_cps)
             else (None, 0));
          better = better_team cmp;
          diff = difference cmp;
          better_cps = (if better = home_team mi then total home_cps else total away_cps)
      in if truthy winner \<and> winner = Some better
           then text_deserved fmt (the winner) winner_cps diff
         else if truthy winner \<and> better = ''Empate tecnico''
           then text_close fmt (the winner) diff
         else if truthy winner \<and> winner \<noteq> Some better \<and> better \<noteq> ''Empate tecnico''
           then text_unjust fmt better better_cps diff (the winner)
         else if \<not> truthy winner
           then (if better = ''Empate tecnico'' then text_fair_draw
                 else text_draw_undersells fmt better diff)
         else ''Analisis completado.'')"

subsection \<open>Notions used to state the properties\<close>

text \<open>
  A cleaned statistics record, as \<open>parse_statistics\<close> builds it: the only key that may
  hold text is \<open>team_name\<close>; every other value is a number.
\<close>

definition cleaned :: "stat_record \<Rightarrow> bool" where
  "cleaned stats = (\<forall>k t. stats k = Some (Text t) \<longrightarrow> k = ''team_name'')"

text \<open>The number \<open>stats.get(k, 0)\<close> of a cleaned record: a missing key counts as 0.\<close>

definition get0 :: "stat_record \<Rightarrow> string \<Rightarrow> real" where
  "get0 stats k = (case stats k of Some (Num x) \<Rightarrow> x | _ \<Rightarrow> 0)"

text \<open>
  The raw values of the input domain: \<open>None\<close>, a string, a float, a boolean, and an
  integer that \<open>float\<close> can convert, that is of magnitude below \<open>2^1024 - 2^970\<close>.
\<close>

fun in_domain :: "raw_value \<Rightarrow> bool" where
  "in_domain VNone = True"
| "in_domain (VStr s) = True"
| "in_domain (VInt n) = (\<bar>n\<bar> < 2 ^ 1024 - 2 ^ 970)"
| "in_domain (VFloat x) = True"
| "in_domain (VBool b) = True"
| "in_domain VOther = False"

text \<open>A block all of whose statistics have a value of the input domain.\<close>

definition block_in_domain :: "team_stats \<Rightarrow> bool" where
  "block_in_domain b =
     (\<forall>s \<in> set (case statistics b of None \<Rightarrow> [] | Some ss \<Rightarrow> ss).
        in_domain (case stat_value s of None \<Rightarrow> VNone | Some v \<Rightarrow> v))"

text \<open>
  What the loop body writes for one block: the record \<open>store_team\<close> makes of the empty
  record (empty if a value of the block cannot be cleaned).
\<close>

definition written :: "(string \<Rightarrow> real option) \<Rightarrow> string \<Rightarrow> team_stats \<Rightarrow> stat_record" where
  "written float_str key b =
     (case store_team float_str key b Map.empty of Inl e \<Rightarrow> Map.empty | Inr r \<Rightarrow> r)"

text \<open>The name \<open>team_stats.get("team", {}).get("name", key)\<close> of a block.\<close>

definition team_name_of :: "string \<Rightarrow> team_stats \<Rightarrow> string" where
  "team_name_of key b =
     (case team b of None \<Rightarrow> key | Some t \<Rightarrow> (case name t of None \<Rightarrow> key | Some n \<Rightarrow> n))"

subsection \<open>Concrete inputs\<close>

text \<open>Inputs on which the theorems below are run.\<close>

definition fixture_info :: match_info where
  "fixture_info =
     \<lparr>home_team = ''Local'', away_team = ''Visitante'', home_goals = 1, away_goals = 0\<rparr>"

definition example_stats :: stat_record where
  "example_stats =
     [''shots_on_goal'' \<mapsto> Num 5, ''offsides'' \<mapsto> Num 10, ''possession'' \<mapsto> Num 55,
      ''total_passes'' \<mapsto> Num 400, ''yellow_cards'' \<mapsto> Num 2,
      ''team_name'' \<mapsto> Text ''Local'']"

text \<open>
  \<open>float\<close> on a plain decimal literal: an optional sign, then digits with at most one
  point and at least one digit. It stands for the builtin where a theorem is run on a
  concrete string; where it returns a number, \<open>float\<close> returns that number. Exponents,
  digit separators and the names of the non-finite floats are outside it.
\<close>

definition digit :: "char \<Rightarrow> nat option" where
  "digit c = (let n = (of_char c :: nat) in if 48 \<le> n \<and> n \<le> 57 then Some (n - 48) else None)"

fun digits_value :: "string \<Rightarrow> nat \<Rightarrow> nat option" where
  "digits_value [] acc = Some acc"
| "digits_value (c # cs) acc =
     (case digit c of None \<Rightarrow> None | Some d \<Rightarrow> digits_value cs (10 * acc + d))"

definition float_plain :: "string \<Rightarrow> real option" where
  "float_plain s =
     (let (sign, body) =
            (case s of
               [] \<Rightarrow> (1, [])
             | c # cs \<Rightarrow> if c = CHR ''-'' then (- 1, cs)
                         else if c = CHR ''+'' then (1, cs) else (1, s));
          ip = takeWhile (\<lambda>c. c \<noteq> CHR ''.'') body;
          fp = drop 1 (dropWhile (\<lambda>c. c \<noteq> CHR ''.'') body)
      in if ip = [] \<and> fp = [] then None
         else (case (digits_value ip 0, digits_value fp 0) of
                 (Some a, Some b) \<Rightarrow> Some (sign * (of_nat a + of_nat b / 10 ^ length fp))
               | _ \<Rightarrow> None))"

definition fouls_minus_1 :: weights where
  "fouls_minus_1 = [''fouls'' \<mapsto> - 1]"

definition fouls_minus_2 :: weights where
  "fouls_minus_2 = [''fouls'' \<mapsto> - 2]"

definition ten_fouls :: stat_record where
  "ten_fouls = [''fouls'' \<mapsto> Num 10]"

definition home_block :: team_stats where
  "home_block =
     \<lparr>team = Some \<lparr>name = Some ''Local''\<rparr>,
      statistics = Some [\<lparr>stat_type = Some ''Shots on Goal'', stat_value = Some (VInt 5)\<rparr>,
                         \<lparr>stat_type = Some ''Ball Possession'', stat_value = Some (VStr ''55%'')\<rparr>,
                         \<lparr>stat_type = Some ''Red Cards'', stat_value = Some VNone\<rparr>]\<rparr>"

definition away_block :: team_stats where
  "away_block =
     \<lparr>team = Some \<lparr>name = Some ''Visitante''\<rparr>,
      statistics = Some [\<lparr>stat_type = Some ''Shots on Goal'', stat_value = Some (VInt 2)\<rparr>,
                         \<lparr>stat_type = Some ''Fouls'', stat_value = Some (VInt 12)\<rparr>]\<rparr>"

definition third_block :: team_stats where
  "third_block =
     \<lparr>team = Some \<lparr>name = Some ''Tercero''\<rparr>,
      statistics = Some [\<lparr>stat_type = Some ''Shots on Goal'', stat_value = Some (VInt 9)\<rparr>]\<rparr>"

definition overflow_block :: team_stats where
  "overflow_block =
     \<lparr>team = Some \<lparr>name = Some ''Visitante''\<rparr>,
      statistics = Some [\<lparr>stat_type = Some ''Total passes'',
                          stat_value = Some (VInt (10 ^ 400))\<rparr>]\<rparr>"

section \<open>Properties\<close>

subsection \<open>Cleaning one value\<close>

lemma float_plain_55: "float_plain ''55'' = Some 55"
  by (simp add: float_plain_def digit_def)
lemma float_plain_NA: "float_plain ''N/A'' = None"
  by (simp add: float_plain_def digit_def)

lemma replace_empty: "replace c [] s = filter (\<lambda>x. x \<noteq> c) s"
  by (induction s) (simp_all add: replace_def)

lemma filter_absent: "c \<notin> set s \<Longrightarrow> filter (\<lambda>x. x \<noteq> c) s = s"
  by (induction s) auto

text \<open>
  Claim C4. \<open>_clean_stat_value\<close> maps \<open>None\<close> to 0.0; a string containing \<open>%\<close> to the
  float parse of the string with every \<open>%\<close> removed and the white space around it
  trimmed (\<open>55%\<close> to 55.0); any other string to its float parse; in both cases 0.0 when
  the parse fails (\<open>N/A\<close> to 0.0); a number to its float cast, which for an integer within
  the range of a double is the integer itself; and a float to itself, so that cleaning a
  cleaned value returns it unchanged.
\<close>

theorem clean_stat_value_cases:
  "clean_stat_value fs VNone = Inr 0 \<and>
   (CHR ''%'' \<in> set s \<longrightarrow>
      clean_stat_value fs (VStr s) =
        Inr (case fs (strip (filter (\<lambda>c. c \<noteq> CHR ''%'') s)) of Some x \<Rightarrow> x | None \<Rightarrow> 0)) \<and>
   (CHR ''%'' \<notin> set s \<longrightarrow>
      clean_stat_value fs (VStr s) = Inr (case fs (strip s) of Some x \<Rightarrow> x | None \<Rightarrow> 0)) \<and>
   (fs ''55'' = Some 55 \<longrightarrow> clean_stat_value fs (VStr ''55%'') = Inr 55) \<and>
   (fs ''N/A'' = None \<longrightarrow> clean_stat_value fs (VStr ''N/A'') = Inr 0) \<and>
   clean_stat_value fs (VInt n) = float_of_int n \<and>
   (\<bar>n\<bar> < 2 ^ 1024 - 2 ^ 970 \<longrightarrow> clean_stat_value fs (VInt n) = Inr (of_int n)) \<and>
   clean_stat_value fs (VFloat x) = Inr x \<and>
   (clean_stat_value fs v = Inr y \<longrightarrow> clean_stat_value fs (VFloat y) = Inr y)"
  by (simp add: replace_empty filter_absent strip_def isspace_def float_of_int_def
      split: option.splits)

text \<open>The examples of the specification, with plain decimal literals parsed.\<close>

theorem clean_stat_value_cases_witness:
  "clean_stat_value float_plain (VStr ''55%'') = Inr 55 \<and>
   clean_stat_value float_plain (VStr ''N/A'') = Inr 0 \<and>
   clean_stat_value float_plain (VStr ''7'') = Inr 7 \<and>
   clean_stat_value float_plain (VInt 12) = Inr 12 \<and>
   clean_stat_value float_plain (VFloat 55) = Inr 55"
  using clean_stat_value_cases [of float_plain "''7''" 12 55 "VStr ''55%''" 55]
    clean_stat_value_cases [of float_plain "''55%''" 12 55 "VStr ''55%''" 55]
  by (simp add: float_plain_55 float_plain_NA strip_def isspace_def float_plain_def digit_def)

subsection \<open>Label translation\<close>

lemma lower_char_upper:
  "map lower_char ''ABCDEFGHIJKLMNOPQRSTUVWXYZ'' = ''abcdefghijklmnopqrstuvwxyz''"
  by code_simp

lemma lower_char_space: "lower_char c = CHR '' '' \<longleftrightarrow> c = CHR '' ''"
proof
  assume h: "lower_char c = CHR '' ''"
  show "c = CHR '' ''"
  proof (cases "65 \<le> (of_char c :: nat) \<and> (of_char c :: nat) \<le> 90")
    case True
    then have "lower_char c = char_of (of_char c + 32 :: nat)"
      by (simp add: lower_char_def Let_def)
    then have "(of_char (char_of (of_char c + 32 :: nat)) :: nat) = of_char (CHR '' '')"
      using h by simp
    then have "((of_char c + 32) mod 256 :: nat) = 32"
      by simp
    then show ?thesis using True by simp
  next
    case False
    then have "lower_char c = c" by (auto simp add: lower_char_def Let_def)
    then show ?thesis using h by simp
  qed
next
  assume "c = CHR '' ''"
  then show "lower_char c = CHR '' ''" by (simp add: lower_char_def)
qed

lemma lower_char_not_upper:
  "\<not> (65 \<le> (of_char c :: nat) \<and> (of_char c :: nat) \<le> 90) \<Longrightarrow> lower_char c = c"
  by (auto simp add: lower_char_def Let_def)

lemma replace_char: "replace c [d] s = map (\<lambda>x. if x = c then d else x) s"
  by (induction s) (simp_all add: replace_def)

lemma STAT_MAPPING_distinct: "distinct (map fst STAT_MAPPING)"
  by (simp add: STAT_MAPPING_def)

lemma internal_name_known: "(l, n) \<in> set STAT_MAPPING \<Longrightarrow> internal_name l = n"
  by (simp add: internal_name_def map_of_is_SomeI [OF STAT_MAPPING_distinct])

lemma internal_name_unknown:
  assumes "l \<notin> fst ` set STAT_MAPPING"
  shows "internal_name l = map (\<lambda>c. if c = CHR '' '' then CHR ''_'' else lower_char c) l"
proof -
  have "map_of STAT_MAPPING l = None"
    using assms by (simp add: map_of_eq_None_iff)
  then show ?thesis
    by (simp add: internal_name_def replace_char lower_def comp_def lower_char_space)
qed

text \<open>
  Claim C8 says that the lookup table has exactly 14 entries. \<open>STAT_MAPPING\<close> has 16.
\<close>

theorem label_table_size: "length STAT_MAPPING \<noteq> 14"
  by (simp add: STAT_MAPPING_def)

text \<open>
  Claim C8, amended. The lookup table has exactly 16 entries with distinct labels; a label
  of the table is translated to the internal name the table gives; any other label is
  translated character by character: a space becomes an underscore, a letter A to Z
  becomes the letter a to z, and every other character is unchanged.
\<close>

theorem label_translation:
  "length STAT_MAPPING = 16 \<and> distinct (map fst STAT_MAPPING) \<and>
   ((l, n) \<in> set STAT_MAPPING \<longrightarrow> internal_name l = n) \<and>
   (u \<notin> fst ` set STAT_MAPPING \<longrightarrow>
      internal_name u = map (\<lambda>c. if c = CHR '' '' then CHR ''_'' else lower_char c) u) \<and>
   map lower_char ''ABCDEFGHIJKLMNOPQRSTUVWXYZ'' = ''abcdefghijklmnopqrstuvwxyz'' \<and>
   (\<not> (65 \<le> (of_char c :: nat) \<and> (of_char c :: nat) \<le> 90) \<longrightarrow> lower_char c = c)"
proof -
  have "length STAT_MAPPING = 16" by (simp add: STAT_MAPPING_def)
  then show ?thesis
    by (simp add: STAT_MAPPING_distinct internal_name_known internal_name_unknown
        lower_char_upper lower_char_not_upper del: map_map list.map)
qed

text \<open>A label of the table and a label the table does not know.\<close>

theorem label_translation_witness:
  "internal_name ''Passes %'' = ''pass_accuracy'' \<and>
   internal_name ''Expected Goals XG'' = ''expected_goals_xg'' \<and>
   lower_char CHR ''%'' = CHR ''%''"
proof -
  have k: "(''Passes %'', ''pass_accuracy'') \<in> set STAT_MAPPING"
    by (simp add: STAT_MAPPING_def)
  have u: "''Expected Goals XG'' \<notin> fst ` set STAT_MAPPING"
    by (simp add: STAT_MAPPING_def)
  have c: "\<not> (65 \<le> (of_char CHR ''%'' :: nat) \<and> (of_char CHR ''%'' :: nat) \<le> 90)"
    by simp
  have e: "map (\<lambda>c. if c = CHR '' '' then CHR ''_'' else lower_char c) ''Expected Goals XG'' =
           ''expected_goals_xg''"
    by code_simp
  show ?thesis
    using label_translation
      [of "''Passes %''" "''pass_accuracy''" "''Expected Goals XG''" "CHR ''%''"] k u c e
    by (simp del: list.map)
qed

subsection \<open>The score formula\<close>

lemma weighted_cleaned:
  assumes "cleaned stats" and "k \<noteq> ''team_name''"
  shows "weighted W stats k =
           (case W k of None \<Rightarrow> Inl KeyError | Some w \<Rightarrow> Inr (get0 stats k * w))"
proof (cases "stats k")
  case None
  then show ?thesis by (simp add: weighted_def get0_def split: option.splits)
next
  case (Some v)
  show ?thesis
  proof (cases v)
    case (Num x)
    then show ?thesis using Some by (simp add: weighted_def get0_def split: option.splits)
  next
    case (Text t)
    then have "k = ''team_name''" using Some assms(1) by (simp add: cleaned_def)
    then show ?thesis using assms(2) by simp
  qed
qed

lemma add_Inr [simp]: "add (Inr x) (Inr y) = Inr (x + y)"
  by (simp add: add_def)

lemma calculate_cps_cleaned:
  assumes c: "cleaned stats"
    and w: "W ''shots_on_goal'' = Some w1" "W ''shots_inside_box'' = Some w2"
      "W ''shots_outside_box'' = Some w3" "W ''corner_kicks'' = Some w4"
      "W ''offsides'' = Some w5" "W ''possession'' = Some w6"
      "W ''pass_accuracy'' = Some w7" "W ''total_passes'' = Some w8"
      "W ''fouls'' = Some w9" "W ''yellow_cards'' = Some w10" "W ''red_cards'' = Some w11"
  shows "calculate_cps W stats =
     Inr \<lparr>threat = get0 stats ''shots_on_goal'' * w1 + get0 stats ''shots_inside_box'' * w2 +
                   get0 stats ''shots_outside_box'' * w3 + get0 stats ''corner_kicks'' * w4 +
                   get0 stats ''offsides'' * w5,
          control = get0 stats ''possession'' * w6 + get0 stats ''pass_accuracy'' * w7 +
                    get0 stats ''total_passes'' * w8,
          friction = get0 stats ''fouls'' * w9 + get0 stats ''yellow_cards'' * w10 +
                     get0 stats ''red_cards'' * w11,
          total = (get0 stats ''shots_on_goal'' * w1 + get0 stats ''shots_inside_box'' * w2 +
                   get0 stats ''shots_outside_box'' * w3 + get0 stats ''corner_kicks'' * w4 +
                   get0 stats ''offsides'' * w5) +
                  (get0 stats ''possession'' * w6 + get0 stats ''pass_accuracy'' * w7 +
                    get0 stats ''total_passes'' * w8) +
                  (get0 stats ''fouls'' * w9 + get0 stats ''yellow_cards'' * w10 +
                     get0 stats ''red_cards'' * w11)\<rparr>"
  using w by (simp add: calculate_cps_def weighted_cleaned [OF c])

text \<open>
  Claim C1. For every cleaned statistics record, \<open>calculate_cps\<close> with the default weights
  returns a breakdown whose threat is 3.0 shots_on_goal + 2.0 shots_inside_box +
  0.5 shots_outside_box + 1.0 corner_kicks - 0.3 offsides, whose control is
  0.4 possession + 0.5 pass_accuracy + 0.02 total_passes, whose friction is
  - 0.5 fouls - 3.0 yellow_cards - 10.0 red_cards, a missing key counting as 0, and whose
  total is exactly threat + control + friction.
\<close>

theorem calculate_cps_formula:
  assumes "cleaned stats"
  shows "\<exists>b. calculate_cps (map_of WEIGHTS) stats = Inr b \<and>
     threat b = 3 * get0 stats ''shots_on_goal'' + 2 * get0 stats ''shots_inside_box'' +
                (1 / 2) * get0 stats ''shots_outside_box'' + 1 * get0 stats ''corner_kicks'' -
                (3 / 10) * get0 stats ''offsides'' \<and>
     control b = (4 / 10) * get0 stats ''possession'' + (1 / 2) * get0 stats ''pass_accuracy'' +
                 (2 / 100) * get0 stats ''total_passes'' \<and>
     friction b = - (1 / 2) * get0 stats ''fouls'' - 3 * get0 stats ''yellow_cards'' -
                  10 * get0 stats ''red_cards'' \<and>
     total b = threat b + control b + friction b"
  by (simp add: calculate_cps_def weighted_cleaned [OF assms] WEIGHTS_def)

text \<open>The formula at a record with five statistics and a team name.\<close>

theorem calculate_cps_formula_witness:
  "cleaned example_stats \<and>
   (\<exists>b. calculate_cps (map_of WEIGHTS) example_stats = Inr b \<and>
        threat b = 12 \<and> control b = 30 \<and> friction b = - 6 \<and> total b = 36)"
proof -
  have c: "cleaned example_stats"
    by (simp add: cleaned_def example_stats_def)
  show ?thesis
    using c calculate_cps_formula [OF c] by (auto simp add: get0_def example_stats_def)
qed

subsection \<open>The weight table of the class\<close>

lemma init_keeps_keys: "k \<in> dom W \<Longrightarrow> k \<in> dom (init weights W)"
  by (auto simp add: init_def split: option.splits)

lemma foldl_init_keeps_keys:
  "k \<in> dom W \<Longrightarrow> k \<in> dom (foldl (\<lambda>W weights. init weights W) W calls)"
  by (induction calls arbitrary: W) (simp_all add: init_keeps_keys)

lemma WEIGHTS_names:
  "map fst WEIGHTS =
     [''shots_on_goal'', ''shots_inside_box'', ''shots_outside_box'', ''corner_kicks'',
      ''offsides'', ''possession'', ''pass_accuracy'', ''total_passes'', ''fouls'',
      ''yellow_cards'', ''red_cards'']"
  by (simp add: WEIGHTS_def)

lemma constructed_keys:
  assumes "k \<in> set (map fst WEIGHTS)"
  shows "\<exists>w. constructed calls k = Some w"
proof -
  have "k \<in> dom (map_of WEIGHTS)"
    using assms by (simp add: dom_map_of_conv_image_fst)
  then have "k \<in> dom (constructed calls)"
    unfolding constructed_def by (rule foldl_init_keeps_keys)
  then show ?thesis by auto
qed

lemma init_merge:
  "init (Some ov) W k = (case ov k of Some w \<Rightarrow> Some w | None \<Rightarrow> W k)"
  by (simp add: init_def map_add_def)

lemma cleaned_empty: "cleaned Map.empty"
  by (simp add: cleaned_def)

lemma constructed_weights:
  obtains w1 w2 w3 w4 w5 w6 w7 w8 w9 w10 w11 where
    "constructed calls ''shots_on_goal'' = Some w1"
    "constructed calls ''shots_inside_box'' = Some w2"
    "constructed calls ''shots_outside_box'' = Some w3"
    "constructed calls ''corner_kicks'' = Some w4"
    "constructed calls ''offsides'' = Some w5"
    "constructed calls ''possession'' = Some w6"
    "constructed calls ''pass_accuracy'' = Some w7"
    "constructed calls ''total_passes'' = Some w8"
    "constructed calls ''fouls'' = Some w9"
    "constructed calls ''yellow_cards'' = Some w10"
    "constructed calls ''red_cards'' = Some w11"
proof -
  obtain w1 where w1: "constructed calls ''shots_on_goal'' = Some w1"
    using constructed_keys [of "''shots_on_goal''"] by (auto simp add: WEIGHTS_names)
  obtain w2 where w2: "constructed calls ''shots_inside_box'' = Some w2"
    using constructed_keys [of "''shots_inside_box''"] by (auto simp add: WEIGHTS_names)
  obtain w3 where w3: "constructed calls ''shots_outside_box'' = Some w3"
    using constructed_keys [of "''shots_outside_box''"] by (auto simp add: WEIGHTS_names)
  obtain w4 where w4: "constructed calls ''corner_kicks'' = Some w4"
    using constructed_keys [of "''corner_kicks''"] by (auto simp add: WEIGHTS_names)
  obtain w5 where w5: "constructed calls ''offsides'' = Some w5"
    using constructed_keys [of "''offsides''"] by (auto simp add: WEIGHTS_names)
  obtain w6 where w6: "constructed calls ''possession'' = Some w6"
    using constructed_keys [of "''possession''"] by (auto simp add: WEIGHTS_names)
  obtain w7 where w7: "constructed calls ''pass_accuracy'' = Some w7"
    using constructed_keys [of "''pass_accuracy''"] by (auto simp add: WEIGHTS_names)
  obtain w8 where w8: "constructed calls ''total_passes'' = Some w8"
    using constructed_keys [of "''total_passes''"] by (auto simp add: WEIGHTS_names)
  obtain w9 where w9: "constructed calls ''fouls'' = Some w9"
    using constructed_keys [of "''fouls''"] by (auto simp add: WEIGHTS_names)
  obtain w10 where w10: "constructed calls ''yellow_cards'' = Some w10"
    using constructed_keys [of "''yellow_cards''"] by (auto simp add: WEIGHTS_names)
  obtain w11 where w11: "constructed calls ''red_cards'' = Some w11"
    using constructed_keys [of "''red_cards''"] by (auto simp add: WEIGHTS_names)
  show ?thesis
    using that [OF w1 w2 w3 w4 w5 w6 w7 w8 w9 w10 w11] .
qed

lemma calculate_cps_returns:
  assumes "cleaned stats"
  shows "\<exists>b. calculate_cps (constructed calls) stats = Inr b"
proof -
  obtain w1 w2 w3 w4 w5 w6 w7 w8 w9 w10 w11 where
    w: "constructed calls ''shots_on_goal'' = Some w1"
    "constructed calls ''shots_inside_box'' = Some w2"
    "constructed calls ''shots_outside_box'' = Some w3"
    "constructed calls ''corner_kicks'' = Some w4"
    "constructed calls ''offsides'' = Some w5"
    "constructed calls ''possession'' = Some w6"
    "constructed calls ''pass_accuracy'' = Some w7"
    "constructed calls ''total_passes'' = Some w8"
    "constructed calls ''fouls'' = Some w9"
    "constructed calls ''yellow_cards'' = Some w10"
    "constructed calls ''red_cards'' = Some w11"
    by (rule constructed_weights)
  show ?thesis
    by (simp add: calculate_cps_cleaned [OF assms w])
qed

lemma calculate_cps_empty:
  "calculate_cps (constructed calls) Map.empty =
     Inr \<lparr>threat = 0, control = 0, friction = 0, total = 0\<rparr>"
proof -
  obtain w1 w2 w3 w4 w5 w6 w7 w8 w9 w10 w11 where
    w: "constructed calls ''shots_on_goal'' = Some w1"
    "constructed calls ''shots_inside_box'' = Some w2"
    "constructed calls ''shots_outside_box'' = Some w3"
    "constructed calls ''corner_kicks'' = Some w4"
    "constructed calls ''offsides'' = Some w5"
    "constructed calls ''possession'' = Some w6"
    "constructed calls ''pass_accuracy'' = Some w7"
    "constructed calls ''total_passes'' = Some w8"
    "constructed calls ''fouls'' = Some w9"
    "constructed calls ''yellow_cards'' = Some w10"
    "constructed calls ''red_cards'' = Some w11"
    by (rule constructed_weights)
  show ?thesis
    by (simp add: calculate_cps_cleaned [OF cleaned_empty w] get0_def)
qed

lemma first_table: "constructed [Some fouls_minus_1] = (map_of WEIGHTS)(''fouls'' \<mapsto> - 1)"
  by (simp add: constructed_def init_def fouls_minus_1_def)

lemma second_table:
  "constructed [Some fouls_minus_1, Some fouls_minus_2] = (map_of WEIGHTS)(''fouls'' \<mapsto> - 2)"
  by (simp add: constructed_def init_def fouls_minus_1_def fouls_minus_2_def)

lemma first_score:
  "calculate_cps (constructed [Some fouls_minus_1]) ten_fouls =
     Inr \<lparr>threat = 0, control = 0, friction = - 10, total = - 10\<rparr>"
  by (simp add: first_table calculate_cps_def weighted_def ten_fouls_def WEIGHTS_def)

lemma second_score:
  "calculate_cps (constructed [Some fouls_minus_1, Some fouls_minus_2]) ten_fouls =
     Inr \<lparr>threat = 0, control = 0, friction = - 20, total = - 20\<rparr>"
  by (simp add: second_table calculate_cps_def weighted_def ten_fouls_def WEIGHTS_def)

text \<open>
  Claim C5. A constructor call without overrides leaves the table of the class as it is;
  a call with overrides merges them over the table by key, so that over the 11 default
  weights a key the overrides do not name keeps its default. The table is the one of the
  class: there are overrides \<open>ov1\<close> and \<open>ov2\<close> and a record such that, after a first agent
  was built with \<open>ov1\<close>, building a second agent with \<open>ov2\<close> changes the table the
  first agent reads and the result of its \<open>calculate_cps\<close>. The table read after the
  calls \<open>cs\<close> is \<open>constructed cs\<close>, for every agent.
\<close>

theorem shared_weight_table:
  "init None W = W \<and>
   init (Some ov) W k = (case ov k of Some w \<Rightarrow> Some w | None \<Rightarrow> W k) \<and>
   length WEIGHTS = 11 \<and> distinct (map fst WEIGHTS) \<and>
   (ov k = None \<longrightarrow> constructed [Some ov] k = map_of WEIGHTS k) \<and>
   (\<exists>ov1 ov2 stats. ov1 \<noteq> ov2 \<and>
      constructed [Some ov1, Some ov2] \<noteq> constructed [Some ov1] \<and>
      calculate_cps (constructed [Some ov1, Some ov2]) stats \<noteq>
      calculate_cps (constructed [Some ov1]) stats)"
proof -
  have a: "init None W = W" by (simp add: init_def)
  have b: "length WEIGHTS = 11" by (simp add: WEIGHTS_def)
  have c: "distinct (map fst WEIGHTS)" by (simp add: WEIGHTS_names)
  have d: "ov k = None \<longrightarrow> constructed [Some ov] k = map_of WEIGHTS k"
    by (simp add: constructed_def init_merge)
  have s: "calculate_cps (constructed [Some fouls_minus_1, Some fouls_minus_2]) ten_fouls \<noteq>
        calculate_cps (constructed [Some fouls_minus_1]) ten_fouls"
    by (simp add: first_score second_score)
  then have t: "constructed [Some fouls_minus_1, Some fouls_minus_2] \<noteq>
        constructed [Some fouls_minus_1]"
    by auto
  have "fouls_minus_1 ''fouls'' \<noteq> fouls_minus_2 ''fouls''"
    by (simp add: fouls_minus_1_def fouls_minus_2_def)
  then have n: "fouls_minus_1 \<noteq> fouls_minus_2" by auto
  have e: "\<exists>ov1 ov2 stats. ov1 \<noteq> ov2 \<and>
      constructed [Some ov1, Some ov2] \<noteq> constructed [Some ov1] \<and>
      calculate_cps (constructed [Some ov1, Some ov2]) stats \<noteq>
      calculate_cps (constructed [Some ov1]) stats"
    using n t s by blast
  show ?thesis using a b c d e init_merge by blast
qed

text \<open>Two agents that override the weight of fouls, and a record with ten fouls.\<close>

theorem shared_weight_table_witness:
  "fouls_minus_1 ''red_cards'' = None \<and>
   constructed [Some fouls_minus_1] ''red_cards'' = Some (- 10) \<and>
   init (Some fouls_minus_1) (map_of WEIGHTS) ''fouls'' = Some (- 1) \<and>
   calculate_cps (constructed [Some fouls_minus_1]) ten_fouls =
     Inr \<lparr>threat = 0, control = 0, friction = - 10, total = - 10\<rparr> \<and>
   calculate_cps (constructed [Some fouls_minus_1, Some fouls_minus_2]) ten_fouls =
     Inr \<lparr>threat = 0, control = 0, friction = - 20, total = - 20\<rparr>"
proof -
  have h: "fouls_minus_1 ''red_cards'' = None" by (simp add: fouls_minus_1_def)
  have f: "fouls_minus_1 ''fouls'' = Some (- 1)" by (simp add: fouls_minus_1_def)
  have r: "map_of WEIGHTS ''red_cards'' = Some (- 10)" by (simp add: WEIGHTS_def)
  show ?thesis
    using shared_weight_table [of "map_of WEIGHTS" fouls_minus_1 "''red_cards''"]
      shared_weight_table [of "map_of WEIGHTS" fouls_minus_1 "''fouls''"] h f r
    by (simp add: first_score second_score)
qed

subsection \<open>Parsing\<close>

lemma clean_in_domain: "in_domain v \<Longrightarrow> \<exists>x. clean_stat_value fs v = Inr x"
  by (cases v) (auto simp add: float_of_int_def Let_def split: option.splits)

lemma map_add_upd_left: "r(k \<mapsto> v) ++ m = r ++ ([k \<mapsto> v] ++ m)"
  by (rule ext) (simp add: map_add_def split: option.splits)

lemma store_stats_append:
  assumes "\<forall>s \<in> set ss. in_domain (case stat_value s of None \<Rightarrow> VNone | Some v \<Rightarrow> v)"
  shows "\<exists>m. (\<forall>r. store_stats fs ss r = Inr (r ++ m)) \<and>
             (\<forall>k t. m k = Some (Text t) \<longrightarrow> k = ''team_name'')"
  using assms
proof (induction ss)
  case Nil
  have "\<forall>r. store_stats fs [] r = Inr (r ++ Map.empty)" by simp
  then show ?case by blast
next
  case (Cons s ss)
  have "\<forall>s \<in> set ss. in_domain (case stat_value s of None \<Rightarrow> VNone | Some v \<Rightarrow> v)"
    using Cons.prems by simp
  then obtain m where m: "\<And>r. store_stats fs ss r = Inr (r ++ m)"
    and mc: "\<And>k t. m k = Some (Text t) \<Longrightarrow> k = ''team_name''"
    using Cons.IH by blast
  have "in_domain (case stat_value s of None \<Rightarrow> VNone | Some v \<Rightarrow> v)"
    using Cons.prems by simp
  then obtain x where
    x: "clean_stat_value fs (case stat_value s of None \<Rightarrow> VNone | Some v \<Rightarrow> v) = Inr x"
    using clean_in_domain by blast
  define k where "k = internal_name (case stat_type s of None \<Rightarrow> [] | Some t \<Rightarrow> t)"
  have step: "\<And>r. store_stats fs (s # ss) r = store_stats fs ss (r(k \<mapsto> Num x))"
    by (simp only: store_stats.simps Let_def x k_def sum.case)
  have a: "\<forall>r. store_stats fs (s # ss) r = Inr (r ++ ([k \<mapsto> Num x] ++ m))"
  proof
    fix r
    have "store_stats fs (s # ss) r = Inr (r(k \<mapsto> Num x) ++ m)"
      by (simp only: step m)
    also have "r(k \<mapsto> Num x) ++ m = r ++ ([k \<mapsto> Num x] ++ m)"
      by (rule map_add_upd_left)
    finally show "store_stats fs (s # ss) r = Inr (r ++ ([k \<mapsto> Num x] ++ m))" .
  qed
  have b: "\<forall>k' t. ([k \<mapsto> Num x] ++ m) k' = Some (Text t) \<longrightarrow> k' = ''team_name''"
  proof (intro allI impI)
    fix k' t
    assume h: "([k \<mapsto> Num x] ++ m) k' = Some (Text t)"
    show "k' = ''team_name''"
    proof (cases "m k'")
      case None
      then have "[k \<mapsto> Num x] k' = Some (Text t)" using h by (simp add: map_add_def)
      then show ?thesis by (simp split: if_splits)
    next
      case (Some c)
      then have "m k' = Some (Text t)" using h by (simp add: map_add_def)
      then show ?thesis by (rule mc)
    qed
  qed
  show ?case using a b by blast
qed

lemma store_team_append:
  assumes "block_in_domain b"
  shows "store_team fs key b r = Inr (r ++ written fs key b) \<and> cleaned (written fs key b) \<and>
         written fs key b ''team_name'' = Some (Text (team_name_of key b))"
proof -
  obtain m where m: "\<And>r. store_stats fs (case statistics b of None \<Rightarrow> [] | Some ss \<Rightarrow> ss) r = Inr (r ++ m)"
    and mc: "\<And>k t. m k = Some (Text t) \<Longrightarrow> k = ''team_name''"
    using store_stats_append [of "case statistics b of None \<Rightarrow> [] | Some ss \<Rightarrow> ss" fs] assms
    unfolding block_in_domain_def by blast
  have s: "store_team fs key b r' = Inr ((r' ++ m)(''team_name'' \<mapsto> Text (team_name_of key b)))"
    for r'
    unfolding store_team_def team_name_of_def Let_def by (simp only: m sum.case)
  have w: "written fs key b = m(''team_name'' \<mapsto> Text (team_name_of key b))"
    unfolding written_def by (simp only: s sum.case) simp
  have c: "cleaned (written fs key b)"
    unfolding w cleaned_def using mc by auto
  have "(r ++ m)(''team_name'' \<mapsto> Text (team_name_of key b)) =
        r ++ m(''team_name'' \<mapsto> Text (team_name_of key b))"
    by simp
  then have "store_team fs key b r = Inr (r ++ written fs key b)"
    by (simp only: s w)
  moreover have "written fs key b ''team_name'' = Some (Text (team_name_of key b))"
    by (simp add: w)
  ultimately show ?thesis using c by blast
qed

lemma cleaned_add: "cleaned r \<Longrightarrow> cleaned m \<Longrightarrow> cleaned (r ++ m)"
  unfolding cleaned_def map_add_def by (auto split: option.splits)

lemma parse_loop_away:
  assumes "\<forall>b \<in> set bs. block_in_domain b"
  shows "parse_loop fs (Suc i) bs result =
           Inr (result\<lparr>away := foldl (\<lambda>r b. r ++ written fs ''away'' b) (away result) bs\<rparr>)"
  using assms
proof (induction bs arbitrary: i result)
  case Nil
  show ?case by simp
next
  case (Cons b bs)
  have b: "block_in_domain b" using Cons.prems by simp
  have bs: "\<forall>b \<in> set bs. block_in_domain b" using Cons.prems by simp
  have s: "store_team fs ''away'' b (away result) = Inr (away result ++ written fs ''away'' b)"
    using store_team_append [OF b] by blast
  have "parse_loop fs (Suc i) (b # bs) result =
          parse_loop fs (Suc (Suc i)) bs (result\<lparr>away := away result ++ written fs ''away'' b\<rparr>)"
    by (simp add: s)
  also have "\<dots> = Inr ((result\<lparr>away := away result ++ written fs ''away'' b\<rparr>)
      \<lparr>away := foldl (\<lambda>r b. r ++ written fs ''away'' b)
                 (away (result\<lparr>away := away result ++ written fs ''away'' b\<rparr>)) bs\<rparr>)"
    by (rule Cons.IH [OF bs])
  finally show ?case by simp
qed

lemma parse_loop_zero:
  assumes "\<forall>b \<in> set (b0 # bs). block_in_domain b"
  shows "parse_loop fs 0 (b0 # bs) result =
           Inr \<lparr>home = home result ++ written fs ''home'' b0,
                away = foldl (\<lambda>r b. r ++ written fs ''away'' b) (away result) bs\<rparr>"
proof -
  have b: "block_in_domain b0" using assms by simp
  have bs: "\<forall>b \<in> set bs. block_in_domain b" using assms by simp
  have s: "store_team fs ''home'' b0 (home result) = Inr (home result ++ written fs ''home'' b0)"
    using store_team_append [OF b] by blast
  have "parse_loop fs 0 (b0 # bs) result =
          parse_loop fs (Suc 0) bs (result\<lparr>home := home result ++ written fs ''home'' b0\<rparr>)"
    by (simp add: s)
  then show ?thesis
    by (simp add: parse_loop_away [OF bs])
qed

lemma foldl_written_cleaned:
  assumes "\<forall>b \<in> set bs. block_in_domain b" and "cleaned r"
  shows "cleaned (foldl (\<lambda>r b. r ++ written fs key b) r bs)"
  using assms
proof (induction bs arbitrary: r)
  case Nil
  then show ?case by simp
next
  case (Cons b bs)
  have "cleaned (written fs key b)"
    using store_team_append [of b fs key r] Cons.prems by simp
  then have "cleaned (r ++ written fs key b)"
    using Cons.prems(2) by (simp add: cleaned_add)
  then show ?case using Cons by simp
qed

lemma foldl_written_last:
  assumes "bs \<noteq> []" and "k \<in> dom (written fs key (last bs))"
  shows "foldl (\<lambda>r b. r ++ written fs key b) r bs k = written fs key (last bs) k"
  using assms
proof (induction bs arbitrary: r)
  case Nil
  then show ?case by simp
next
  case (Cons b bs)
  show ?case
  proof (cases "bs = []")
    case True
    then show ?thesis using Cons.prems by (auto simp add: map_add_def split: option.splits)
  next
    case False
    then show ?thesis using Cons by simp
  qed
qed

lemma internal_name_examples:
  "internal_name ''Shots on Goal'' = ''shots_on_goal''"
  "internal_name ''Ball Possession'' = ''possession''"
  "internal_name ''Red Cards'' = ''red_cards''"
  "internal_name ''Fouls'' = ''fouls''"
  "internal_name ''Total passes'' = ''total_passes''"
  by (simp_all add: internal_name_def STAT_MAPPING_def)

lemma clean_examples:
  "clean_stat_value float_plain (VStr ''55%'') = Inr 55"
  "clean_stat_value float_plain VNone = Inr 0"
  "clean_stat_value float_plain (VInt 5) = Inr 5"
  "clean_stat_value float_plain (VInt 2) = Inr 2"
  "clean_stat_value float_plain (VInt 9) = Inr 9"
  "clean_stat_value float_plain (VInt 12) = Inr 12"
  "clean_stat_value float_plain (VInt (10 ^ 400)) = Inl OverflowError"
  by (simp_all add: float_of_int_def replace_def strip_def isspace_def float_plain_def digit_def)

lemma written_home_block:
  "written float_plain ''home'' home_block =
     [''shots_on_goal'' \<mapsto> Num 5, ''possession'' \<mapsto> Num 55, ''red_cards'' \<mapsto> Num 0,
      ''team_name'' \<mapsto> Text ''Local'']"
  by (simp add: written_def store_team_def home_block_def internal_name_examples clean_examples
      del: clean_stat_value.simps)

lemma written_away_block:
  "written float_plain ''away'' away_block =
     [''shots_on_goal'' \<mapsto> Num 2, ''fouls'' \<mapsto> Num 12, ''team_name'' \<mapsto> Text ''Visitante'']"
  by (simp add: written_def store_team_def away_block_def internal_name_examples clean_examples
      del: clean_stat_value.simps)

lemma written_third_block:
  "written float_plain ''away'' third_block =
     [''shots_on_goal'' \<mapsto> Num 9, ''team_name'' \<mapsto> Text ''Tercero'']"
  by (simp add: written_def store_team_def third_block_def internal_name_examples clean_examples
      del: clean_stat_value.simps)

lemma blocks_in_domain:
  "block_in_domain home_block" "block_in_domain away_block" "block_in_domain third_block"
  by (simp_all add: block_in_domain_def home_block_def away_block_def third_block_def)

text \<open>
  Claim C7. When the statistics list is \<open>None\<close>, empty or has one block,
  \<open>parse_statistics\<close> prints its warning and returns two empty records, and
  \<open>calculate_cps\<close> of each of them is the breakdown with threat, control, friction and
  total 0, whatever constructor calls came before.
\<close>

theorem degenerate_input:
  assumes "stats_data = None \<or> (\<exists>blocks. stats_data = Some blocks \<and> length blocks < 2)"
  shows "\<exists>res. parse_statistics float_str stats_data =
                 Inr ([''[ANALYST] WARN: Estadisticas incompletas''], res) \<and>
               home res = Map.empty \<and> away res = Map.empty \<and>
               calculate_cps (constructed calls) (home res) =
                 Inr \<lparr>threat = 0, control = 0, friction = 0, total = 0\<rparr> \<and>
               calculate_cps (constructed calls) (away res) =
                 Inr \<lparr>threat = 0, control = 0, friction = 0, total = 0\<rparr>"
  using assms by (auto simp add: parse_statistics_def calculate_cps_empty)

text \<open>A list of one block, and \<open>None\<close>.\<close>

theorem degenerate_input_witness:
  "(\<exists>res. parse_statistics float_plain (Some [home_block]) =
            Inr ([''[ANALYST] WARN: Estadisticas incompletas''], res) \<and>
          home res = Map.empty \<and> away res = Map.empty \<and>
          calculate_cps (constructed [Some fouls_minus_1]) (home res) =
            Inr \<lparr>threat = 0, control = 0, friction = 0, total = 0\<rparr> \<and>
          calculate_cps (constructed [Some fouls_minus_1]) (away res) =
            Inr \<lparr>threat = 0, control = 0, friction = 0, total = 0\<rparr>) \<and>
   (\<exists>res. parse_statistics float_plain None =
            Inr ([''[ANALYST] WARN: Estadisticas incompletas''], res) \<and>
          home res = Map.empty \<and> away res = Map.empty \<and>
          calculate_cps (constructed []) (home res) =
            Inr \<lparr>threat = 0, control = 0, friction = 0, total = 0\<rparr> \<and>
          calculate_cps (constructed []) (away res) =
            Inr \<lparr>threat = 0, control = 0, friction = 0, total = 0\<rparr>)"
  using degenerate_input [of "Some [home_block]" float_plain "[Some fouls_minus_1]"]
    degenerate_input [of None float_plain "[]"]
  by simp

text \<open>
  Claim C10. Given more than two blocks whose values can be cleaned, \<open>parse_statistics\<close>
  prints no warning and returns a result: the home record is what the first block writes,
  and the away record collects what the second, third and every later block write, in
  that order, a later block overwriting by key what an earlier one wrote. So the
  statistics and the team name of the last block are those of the away record.
\<close>

theorem extra_blocks_go_to_away:
  assumes "\<forall>b \<in> set (b0 # b1 # b2 # bs). block_in_domain b"
  shows "\<exists>res. parse_statistics fs (Some (b0 # b1 # b2 # bs)) = Inr ([], res) \<and>
     home res = written fs ''home'' b0 \<and>
     away res = foldl (\<lambda>r b. r ++ written fs ''away'' b) Map.empty (b1 # b2 # bs) \<and>
     (\<forall>k \<in> dom (written fs ''away'' (last (b2 # bs))).
        away res k = written fs ''away'' (last (b2 # bs)) k) \<and>
     away res ''team_name'' = Some (Text (team_name_of ''away'' (last (b2 # bs))))"
proof -
  define a where "a = foldl (\<lambda>r b. r ++ written fs ''away'' b) Map.empty (b1 # b2 # bs)"
  have p: "parse_loop fs 0 (b0 # b1 # b2 # bs) \<lparr>home = Map.empty, away = Map.empty\<rparr> =
             Inr \<lparr>home = written fs ''home'' b0, away = a\<rparr>"
    unfolding a_def using parse_loop_zero [OF assms, of fs "\<lparr>home = Map.empty, away = Map.empty\<rparr>"]
    by simp
  have r: "parse_statistics fs (Some (b0 # b1 # b2 # bs)) =
             Inr ([], \<lparr>home = written fs ''home'' b0, away = a\<rparr>)"
    by (simp add: parse_statistics_def p del: parse_loop.simps)
  have l: "a k = written fs ''away'' (last (b2 # bs)) k"
    if "k \<in> dom (written fs ''away'' (last (b2 # bs)))" for k
  proof -
    have "last (b1 # b2 # bs) = last (b2 # bs)" by simp
    then show ?thesis
      unfolding a_def
      using foldl_written_last [of "b1 # b2 # bs" k fs "''away''" Map.empty] that by simp
  qed
  have "last (b2 # bs) \<in> set (b0 # b1 # b2 # bs)"
    using last_in_set [of "b2 # bs"] by simp
  then have "block_in_domain (last (b2 # bs))" using assms by blast
  then have t: "written fs ''away'' (last (b2 # bs)) ''team_name'' =
                  Some (Text (team_name_of ''away'' (last (b2 # bs))))"
    using store_team_append by blast
  then have "''team_name'' \<in> dom (written fs ''away'' (last (b2 # bs)))" by auto
  then have n: "a ''team_name'' = Some (Text (team_name_of ''away'' (last (b2 # bs))))"
    using l t by simp
  show ?thesis
    using r l n a_def by auto
qed

text \<open>
  Three blocks: the third overwrites the shots on goal and the team name of the second;
  the fouls of the second, which the third does not report, stay.
\<close>

theorem extra_blocks_go_to_away_witness:
  "block_in_domain home_block \<and> block_in_domain away_block \<and> block_in_domain third_block \<and>
   (\<exists>res. parse_statistics float_plain (Some [home_block, away_block, third_block]) =
            Inr ([], res) \<and>
          home res ''shots_on_goal'' = Some (Num 5) \<and>
          home res ''team_name'' = Some (Text ''Local'') \<and>
          away res ''shots_on_goal'' = Some (Num 9) \<and>
          away res ''fouls'' = Some (Num 12) \<and>
          away res ''team_name'' = Some (Text ''Tercero''))"
proof -
  have d: "\<forall>b \<in> set [home_block, away_block, third_block]. block_in_domain b"
    by (simp add: blocks_in_domain)
  show ?thesis
    using extra_blocks_go_to_away [OF d, of float_plain]
    by (auto simp add: blocks_in_domain written_home_block written_away_block
        written_third_block)
qed

text \<open>
  Claim C6 says that the score engine never raises when every raw value is a number, a
  numeric string, a percentage string or null. An integer too large for a double is a
  number, and \<open>float\<close> raises \<open>OverflowError\<close> on it: the source catches \<open>ValueError\<close>
  around the parse of a string only.
\<close>

theorem huge_integer_raises:
  "clean_stat_value float_plain (VInt (10 ^ 400)) = Inl OverflowError \<and>
   parse_statistics float_plain (Some [home_block, overflow_block]) = Inl OverflowError"
proof -
  have h: "store_team float_plain ''home'' home_block Map.empty =
             Inr (Map.empty ++ written float_plain ''home'' home_block)"
    using store_team_append [OF blocks_in_domain(1)] by blast
  have o: "store_team float_plain ''away'' overflow_block Map.empty = Inl OverflowError"
    by (simp add: store_team_def overflow_block_def float_of_int_def)
  show ?thesis
    by (simp add: parse_statistics_def h o float_of_int_def)
qed

text \<open>
  Claim C6, amended. When every raw value is \<open>None\<close>, a string, a float, a boolean or an
  integer of magnitude below \<open>2^1024 - 2^970\<close>, the score engine does not raise:
  \<open>_clean_stat_value\<close> returns a number, \<open>parse_statistics\<close> returns two cleaned records
  for any list of blocks and for \<open>None\<close>, and \<open>calculate_cps\<close> returns a breakdown for
  each of the two records, whatever constructor calls came before.
\<close>

theorem score_engine_total:
  assumes "\<forall>b \<in> set blocks. block_in_domain b"
  shows "(in_domain v \<longrightarrow> (\<exists>x. clean_stat_value fs v = Inr x)) \<and>
     (\<exists>out res. parse_statistics fs None = Inr (out, res)) \<and>
     (\<exists>out res h a. parse_statistics fs (Some blocks) = Inr (out, res) \<and>
        cleaned (home res) \<and> cleaned (away res) \<and>
        calculate_cps (constructed calls) (home res) = Inr h \<and>
        calculate_cps (constructed calls) (away res) = Inr a)"
proof -
  have "\<exists>out res. parse_statistics fs (Some blocks) = Inr (out, res) \<and>
          cleaned (home res) \<and> cleaned (away res)"
  proof (cases "blocks = [] \<or> length blocks < 2")
    case True
    then have "parse_statistics fs (Some blocks) =
        Inr ([''[ANALYST] WARN: Estadisticas incompletas''],
             \<lparr>home = Map.empty, away = Map.empty\<rparr>)"
      by (simp add: parse_statistics_def)
    then show ?thesis using cleaned_empty by auto
  next
    case False
    then obtain b0 bs where b: "blocks = b0 # bs" by (cases blocks) auto
    have b0: "block_in_domain b0" and bs: "\<forall>b \<in> set bs. block_in_domain b"
      using assms b by auto
    have p: "parse_loop fs 0 blocks \<lparr>home = Map.empty, away = Map.empty\<rparr> =
        Inr \<lparr>home = written fs ''home'' b0,
             away = foldl (\<lambda>r b. r ++ written fs ''away'' b) Map.empty bs\<rparr>"
      unfolding b
      using parse_loop_zero [of b0 bs fs "\<lparr>home = Map.empty, away = Map.empty\<rparr>"] assms b
      by simp
    have r: "parse_statistics fs (Some blocks) =
        Inr ([], \<lparr>home = written fs ''home'' b0,
                  away = foldl (\<lambda>r b. r ++ written fs ''away'' b) Map.empty bs\<rparr>)"
      using False by (simp add: parse_statistics_def p del: parse_loop.simps)
    have "cleaned (written fs ''home'' b0)"
      using store_team_append [OF b0] by blast
    moreover have "cleaned (foldl (\<lambda>r b. r ++ written fs ''away'' b) Map.empty bs)"
      using foldl_written_cleaned [OF bs cleaned_empty] .
    ultimately show ?thesis using r by auto
  qed
  then obtain out res where r: "parse_statistics fs (Some blocks) = Inr (out, res)"
    and ch: "cleaned (home res)" and ca: "cleaned (away res)"
    by blast
  obtain h where h: "calculate_cps (constructed calls) (home res) = Inr h"
    using calculate_cps_returns [OF ch] by blast
  obtain a where a: "calculate_cps (constructed calls) (away res) = Inr a"
    using calculate_cps_returns [OF ca] by blast
  have n: "\<exists>out res. parse_statistics fs None = Inr (out, res)"
    by (simp add: parse_statistics_def)
  have c: "in_domain v \<longrightarrow> (\<exists>x. clean_stat_value fs v = Inr x)"
    using clean_in_domain by blast
  show ?thesis
    using r ch ca h a n c by blast
qed

text \<open>Two blocks with an integer, a percentage string and a null.\<close>

theorem score_engine_total_witness:
  "block_in_domain home_block \<and> block_in_domain away_block \<and> in_domain (VStr ''55%'') \<and>
   (\<exists>x. clean_stat_value float_plain (VStr ''55%'') = Inr x) \<and>
   (\<exists>out res h a.
      parse_statistics float_plain (Some [home_block, away_block]) = Inr (out, res) \<and>
      cleaned (home res) \<and> cleaned (away res) \<and>
      calculate_cps (constructed []) (home res) = Inr h \<and>
      calculate_cps (constructed []) (away res) = Inr a)"
proof -
  have d: "\<forall>b \<in> set [home_block, away_block]. block_in_domain b"
    by (simp add: blocks_in_domain)
  have v: "in_domain (VStr ''55%'')" by simp
  show ?thesis
    using score_engine_total [OF d, of "VStr ''55%''" float_plain "[]"] v
    by (simp add: blocks_in_domain)
qed

subsection \<open>The comparison\<close>

lemma compare_better_team:
  "better_team (compare round2 mi h a) =
     (let d = total h - total a
      in if d > 2 then home_team mi else if d < - 2 then away_team mi else ''Empate tecnico'')"
  by (simp add: compare_def Let_def)

lemma compare_dominance:
  "dominance (compare round2 mi h a) =
     (let d = total h - total a
      in if d > 5 \<or> d < - 5 then ''claramente''
         else if d > 2 \<or> d < - 2 then ''ligeramente'' else '''')"
  by (simp add: compare_def Let_def)

text \<open>
  Claim C2. On the signed difference \<open>d = home.total - away.total\<close> the comparison names
  the home team with label \<open>claramente\<close> (clear) when \<open>d > 5\<close> and with label
  \<open>ligeramente\<close> (slight) when \<open>2 < d \<le> 5\<close>, the away team with label \<open>claramente\<close> when
  \<open>d < -5\<close> and with label \<open>ligeramente\<close> when \<open>-5 \<le> d < -2\<close>, and otherwise the sentinel
  \<open>Empate tecnico\<close> with the empty label. Totals 107 and 102 (difference 5) give
  \<open>ligeramente\<close>; totals 108 and 102 (difference 6) give \<open>claramente\<close> for the home team.
\<close>

theorem compare_thresholds:
  "(let d = total h - total a; c = compare round2 mi h a
    in (5 < d \<longrightarrow> better_team c = home_team mi \<and> dominance c = ''claramente'') \<and>
       (2 < d \<and> d \<le> 5 \<longrightarrow> better_team c = home_team mi \<and> dominance c = ''ligeramente'') \<and>
       (d < - 5 \<longrightarrow> better_team c = away_team mi \<and> dominance c = ''claramente'') \<and>
       (- 5 \<le> d \<and> d < - 2 \<longrightarrow> better_team c = away_team mi \<and> dominance c = ''ligeramente'') \<and>
       (- 2 \<le> d \<and> d \<le> 2 \<longrightarrow> better_team c = ''Empate tecnico'' \<and> dominance c = '''') \<and>
       (total h = 107 \<and> total a = 102 \<longrightarrow>
          better_team c = home_team mi \<and> dominance c = ''ligeramente'') \<and>
       (total h = 108 \<and> total a = 102 \<longrightarrow>
          better_team c = home_team mi \<and> dominance c = ''claramente''))"
  by (simp add: compare_better_team compare_dominance Let_def)

text \<open>The two fixtures of the specification, differences 5 and 6.\<close>

theorem compare_thresholds_witness:
  "dominance (compare (\<lambda>x. x) fixture_info
       \<lparr>threat = 60, control = 50, friction = - 3, total = 107\<rparr>
       \<lparr>threat = 60, control = 50, friction = - 8, total = 102\<rparr>) = ''ligeramente'' \<and>
   better_team (compare (\<lambda>x. x) fixture_info
       \<lparr>threat = 60, control = 50, friction = - 2, total = 108\<rparr>
       \<lparr>threat = 60, control = 50, friction = - 8, total = 102\<rparr>) = ''Local'' \<and>
   dominance (compare (\<lambda>x. x) fixture_info
       \<lparr>threat = 60, control = 50, friction = - 2, total = 108\<rparr>
       \<lparr>threat = 60, control = 50, friction = - 8, total = 102\<rparr>) = ''claramente''"
  using compare_thresholds [of "\<lparr>threat = 60, control = 50, friction = - 3, total = 107\<rparr>"
          "\<lparr>threat = 60, control = 50, friction = - 8, total = 102\<rparr>" "\<lambda>x. x" fixture_info]
        compare_thresholds [of "\<lparr>threat = 60, control = 50, friction = - 2, total = 108\<rparr>"
          "\<lparr>threat = 60, control = 50, friction = - 8, total = 102\<rparr>" "\<lambda>x. x" fixture_info]
  by (simp add: Let_def fixture_info_def)

text \<open>
  Claim C3 says that the differences +2, -2, +5 and -5 all give the sentinel and the empty
  label. At +5 and at -5 the code gives neither: \<open>diff > 2\<close> holds at 5 and \<open>diff < -2\<close>
  holds at -5.
\<close>

theorem boundary_five_not_tied:
  "better_team (compare (\<lambda>x. x) fixture_info
       \<lparr>threat = 60, control = 50, friction = - 3, total = 107\<rparr>
       \<lparr>threat = 60, control = 50, friction = - 8, total = 102\<rparr>) \<noteq> ''Empate tecnico'' \<and>
   dominance (compare (\<lambda>x. x) fixture_info
       \<lparr>threat = 60, control = 50, friction = - 3, total = 107\<rparr>
       \<lparr>threat = 60, control = 50, friction = - 8, total = 102\<rparr>) \<noteq> '''' \<and>
   better_team (compare (\<lambda>x. x) fixture_info
       \<lparr>threat = 60, control = 50, friction = - 8, total = 102\<rparr>
       \<lparr>threat = 60, control = 50, friction = - 3, total = 107\<rparr>) \<noteq> ''Empate tecnico'' \<and>
   dominance (compare (\<lambda>x. x) fixture_info
       \<lparr>threat = 60, control = 50, friction = - 8, total = 102\<rparr>
       \<lparr>threat = 60, control = 50, friction = - 3, total = 107\<rparr>) \<noteq> ''''"
  by (simp add: compare_def fixture_info_def)

text \<open>
  Claim C3, amended. The differences +2 and -2 give the sentinel \<open>Empate tecnico\<close> and the
  empty label; the difference +5 gives the home team with label \<open>ligeramente\<close> and the
  difference -5 the away team with label \<open>ligeramente\<close>.
\<close>

theorem compare_boundaries:
  "(let d = total h - total a; c = compare round2 mi h a
    in (d = 2 \<or> d = - 2 \<longrightarrow> better_team c = ''Empate tecnico'' \<and> dominance c = '''') \<and>
       (d = 5 \<longrightarrow> better_team c = home_team mi \<and> dominance c = ''ligeramente'') \<and>
       (d = - 5 \<longrightarrow> better_team c = away_team mi \<and> dominance c = ''ligeramente''))"
  by (auto simp add: compare_better_team compare_dominance Let_def)

text \<open>The differences 2 and -5.\<close>

theorem compare_boundaries_witness:
  "better_team (compare (\<lambda>x. x) fixture_info
       \<lparr>threat = 60, control = 50, friction = - 6, total = 104\<rparr>
       \<lparr>threat = 60, control = 50, friction = - 8, total = 102\<rparr>) = ''Empate tecnico'' \<and>
   better_team (compare (\<lambda>x. x) fixture_info
       \<lparr>threat = 60, control = 50, friction = - 8, total = 102\<rparr>
       \<lparr>threat = 60, control = 50, friction = - 3, total = 107\<rparr>) = ''Visitante'' \<and>
   dominance (compare (\<lambda>x. x) fixture_info
       \<lparr>threat = 60, control = 50, friction = - 8, total = 102\<rparr>
       \<lparr>threat = 60, control = 50, friction = - 3, total = 107\<rparr>) = ''ligeramente''"
  using compare_boundaries [of "\<lparr>threat = 60, control = 50, friction = - 6, total = 104\<rparr>"
          "\<lparr>threat = 60, control = 50, friction = - 8, total = 102\<rparr>" "\<lambda>x. x" fixture_info]
        compare_boundaries [of "\<lparr>threat = 60, control = 50, friction = - 8, total = 102\<rparr>"
          "\<lparr>threat = 60, control = 50, friction = - 3, total = 107\<rparr>" "\<lambda>x. x" fixture_info]
  by (simp add: Let_def fixture_info_def)

subsection \<open>The verdict\<close>

lemma text_deserved_long: "20 < length (text_deserved fmt w c d)"
  by (simp add: text_deserved_def)

lemma text_close_long: "20 < length (text_close fmt w d)"
  by (simp add: text_close_def)

lemma text_unjust_long: "20 < length (text_unjust fmt b c d w)"
  by (simp add: text_unjust_def)

lemma text_fair_draw_long: "20 < length text_fair_draw"
  by (simp add: text_fair_draw_def)

lemma text_draw_undersells_long: "20 < length (text_draw_undersells fmt b d)"
  by (simp add: text_draw_undersells_def)

lemma generate_verdict_cases:
  "generate_verdict fmt mi cmp h a =
     (let winner = (if home_goals mi > away_goals mi then home_team mi else away_team mi);
          winner_cps = (if home_goals mi > away_goals mi then total h else total a);
          better = better_team cmp;
          better_cps = (if better = home_team mi then total h else total a)
      in if home_goals mi = away_goals mi \<or> winner = []
         then (if better = ''Empate tecnico'' then text_fair_draw
               else text_draw_undersells fmt better (difference cmp))
         else if winner = better then text_deserved fmt winner winner_cps (difference cmp)
         else if better = ''Empate tecnico'' then text_close fmt winner (difference cmp)
         else text_unjust fmt better better_cps (difference cmp) winner)"
  by (auto simp add: generate_verdict_def truthy_def Let_def)

lemma generate_verdict_long: "20 < length (generate_verdict fmt mi cmp h a)"
  unfolding generate_verdict_cases Let_def
  by (simp add: text_deserved_long text_close_long text_unjust_long text_fair_draw_long
      text_draw_undersells_long del: length_greater_0_conv)

text \<open>
  Claim C9. For every goal outcome and every comparison \<open>_generate_verdict\<close> returns a
  text that is not empty and is not the fallback \<open>Analisis completado.\<close>: it is one of
  the five texts. With a goal winner of non-empty name it is the deserved win when the
  winner is the better team, the close game when the comparison is tied, and the unjust
  result otherwise; without one it is the fair draw when the comparison is tied and the
  draw that undersells the better team otherwise.
\<close>

theorem generate_verdict_total:
  "generate_verdict fmt mi cmp h a \<noteq> [] \<and>
   generate_verdict fmt mi cmp h a \<noteq> ''Analisis completado.'' \<and>
   generate_verdict fmt mi cmp h a =
     (let winner = (if home_goals mi > away_goals mi then home_team mi else away_team mi);
          winner_cps = (if home_goals mi > away_goals mi then total h else total a);
          better = better_team cmp;
          better_cps = (if better = home_team mi then total h else total a)
      in if home_goals mi = away_goals mi \<or> winner = []
         then (if better = ''Empate tecnico'' then text_fair_draw
               else text_draw_undersells fmt better (difference cmp))
         else if winner = better then text_deserved fmt winner winner_cps (difference cmp)
         else if better = ''Empate tecnico'' then text_close fmt winner (difference cmp)
         else text_unjust fmt better better_cps (difference cmp) winner)"
proof -
  have l: "20 < length (generate_verdict fmt mi cmp h a)"
    by (rule generate_verdict_long)
  have "length ''Analisis completado.'' = 20" by simp
  then have "generate_verdict fmt mi cmp h a \<noteq> ''Analisis completado.''"
    using l by (metis less_irrefl)
  moreover have "generate_verdict fmt mi cmp h a \<noteq> []"
    using l by auto
  ultimately show ?thesis
    using generate_verdict_cases [of fmt mi cmp h a] by simp
qed

end
